theory Spec2Isabelle
  imports Main
begin

section \<open>The network sidecar of the Kubernetes runner\<close>

text \<open>
  A shallow embedding of \<^verbatim>\<open>src/unnamed/part_001\<close> (package \<^verbatim>\<open>sidecar\<close>): the
  helper \<^verbatim>\<open>retry\<close>, the CNI configuration builder \<^verbatim>\<open>newNetworkConfigList\<close> and
  the method \<^verbatim>\<open>K8sNetwork.ConfigureNetwork\<close>. The CNI plugin and the kernel are
  outside the repository: they are a record of functions over an opaque world.
\<close>

subsection \<open>Errors\<close>

text \<open>
  A Go error is the message of \<^verbatim>\<open>errors.New\<close> (or of \<^verbatim>\<open>fmt.Errorf\<close> without
  \<^verbatim>\<open>%w\<close>), or a prefix wrapped around another error by \<^verbatim>\<open>fmt.Errorf("...: %w", err)\<close>.
  \<open>Error\<close> is the method \<^verbatim>\<open>err.Error()\<close>.
\<close>

datatype error = New string | Wrapf string error

fun Error :: "error \<Rightarrow> string" where
  "Error (New m) = m"
| "Error (Wrapf p e) = p @ Error e"

text \<open>The verb \<^verbatim>\<open>%d\<close>: an integer in decimal.\<close>

fun digits :: "nat \<Rightarrow> string" where
  "digits n =
     (if n < 10 then [''0123456789'' ! n]
      else digits (n div 10) @ [''0123456789'' ! (n mod 10)])"

declare digits.simps [simp del]

definition itoa :: "int \<Rightarrow> string" where
  "itoa i = (if i < 0 then CHR ''-'' # digits (nat (- i)) else digits (nat i))"

subsection \<open>retry (lines 280-296)\<close>

text \<open>
  \<^verbatim>\<open>attempts - 1\<close> on Go's 64-bit \<^verbatim>\<open>int\<close> wraps around; the counter \<^verbatim>\<open>i\<close> starts
  at 0 and stops at that bound, so \<^verbatim>\<open>i++\<close> never overflows.
\<close>

definition sub64 :: "int \<Rightarrow> int \<Rightarrow> int" where
  "sub64 a b = (a - b + 2 ^ 63) mod 2 ^ 64 - 2 ^ 63"

text \<open>
  What \<^verbatim>\<open>retry\<close> does besides returning: it calls \<^verbatim>\<open>f\<close> (with the error the call
  returned), logs a warning that carries \<^verbatim>\<open>err.Error()\<close>, and sleeps.
\<close>

datatype retry_event = Attempt "error option" | Warned string | Slept int

text \<open>
  The loop \<^verbatim>\<open>for i := 0; ; i++\<close>. The function \<^verbatim>\<open>f\<close> is a closure with effects:
  it takes the state of what it acts on and returns the new one. \<^verbatim>\<open>retry\<close> has no
  context parameter.
\<close>

function retry_loop ::
  "int \<Rightarrow> int \<Rightarrow> ('s \<Rightarrow> error option \<times> 's) \<Rightarrow> int \<Rightarrow> 's
   \<Rightarrow> error option \<times> 's \<times> retry_event list"
where
  "retry_loop attempts sleep f i s =
     (case f s of
        (None, s') \<Rightarrow> (None, s', [Attempt None])
      | (Some e, s') \<Rightarrow>
          if i \<ge> sub64 attempts 1
          then (Some (New (''after '' @ itoa attempts @ '' attempts, last error: '' @ Error e)),
                s', [Attempt (Some e), Warned (Error e)])
          else (case retry_loop attempts sleep f (i + 1) s' of
                  (r, s'', tr) \<Rightarrow>
                    (r, s'', [Attempt (Some e), Warned (Error e), Slept sleep] @ tr)))"
  by pat_completeness auto
termination
  by (relation "measure (\<lambda>(attempts, sleep, f, i, s). nat (sub64 attempts 1 - i))") auto

declare retry_loop.simps [simp del]

definition retry ::
  "int \<Rightarrow> int \<Rightarrow> ('s \<Rightarrow> error option \<times> 's) \<Rightarrow> 's \<Rightarrow> error option \<times> 's \<times> retry_event list"
where
  "retry attempts sleep f s = retry_loop attempts sleep f 0 s"

text \<open>\<^verbatim>\<open>time.Second\<close>, in nanoseconds.\<close>

definition Second :: int where
  "Second = 1000000000"

text \<open>
  The vocabulary of the statements about \<^verbatim>\<open>retry\<close>: the state after \<open>k\<close> calls of
  \<open>f\<close>, the result of call number \<open>k + 1\<close>, the number of calls in a trace, and the
  events of one failed round and of the last round.
\<close>

primrec run :: "('s \<Rightarrow> error option \<times> 's) \<Rightarrow> 's \<Rightarrow> nat \<Rightarrow> 's" where
  "run f s 0 = s"
| "run f s (Suc k) = run f (snd (f s)) k"

definition res :: "('s \<Rightarrow> error option \<times> 's) \<Rightarrow> 's \<Rightarrow> nat \<Rightarrow> error option" where
  "res f s k = fst (f (run f s k))"

fun is_Attempt :: "retry_event \<Rightarrow> bool" where
  "is_Attempt (Attempt r) = True"
| "is_Attempt (Warned m) = False"
| "is_Attempt (Slept d) = False"

definition calls :: "retry_event list \<Rightarrow> nat" where
  "calls tr = length (filter is_Attempt tr)"

definition failed_round :: "int \<Rightarrow> error option \<Rightarrow> retry_event list" where
  "failed_round d r = [Attempt r, Warned (Error (the r)), Slept d]"

definition last_round :: "error option \<Rightarrow> retry_event list" where
  "last_round r =
     (case r of None \<Rightarrow> [Attempt None] | Some e \<Rightarrow> [Attempt (Some e), Warned (Error e)])"

text \<open>The error of line 295, for \<open>n\<close> attempts and the last error \<open>e\<close>.\<close>

definition exhausted :: "int \<Rightarrow> error \<Rightarrow> error" where
  "exhausted n e = New (''after '' @ itoa n @ '' attempts, last error: '' @ Error e)"

text \<open>Two closures to run \<^verbatim>\<open>retry\<close> on: one that fails twice and then succeeds (the
  state counts its calls), and one that reports \<^verbatim>\<open>context.Canceled\<close> whenever the
  context it holds is done (the state is that flag).\<close>

definition flaky :: "nat \<Rightarrow> error option \<times> nat" where
  "flaky k = (if k < 2 then Some (New ''transient'') else None, Suc k)"

definition Canceled :: error where
  "Canceled = New ''context canceled''"

definition ctx_attach :: "bool \<Rightarrow> error option \<times> bool" where
  "ctx_attach done = (if done then Some Canceled else None, done)"

subsection \<open>newNetworkConfigList (lines 214-263)\<close>

text \<open>
  The two raw string literals, byte for byte: every line of the source is its
  leading tabs, its text and a newline, and the literal starts with a newline.
\<close>

definition tab :: char where
  "tab = CHR 0x09"

definition nl :: char where
  "nl = CHR 0x0A"

definition line :: "nat \<Rightarrow> string \<Rightarrow> string" where
  "line k s = replicate k tab @ s @ [nl]"

definition net_doc :: "string \<Rightarrow> string" where
  \<open>net_doc addr =
     [nl] @
     line 0 ''{'' @
     line 2 ''"cniVersion": "0.3.0",'' @
     line 2 ''"name": "weave-net",'' @
     line 2 ''"plugins": ['' @
     line 4 ''{'' @
     line 6 ''"name": "weave-net",'' @
     line 6 ''"type": "weave-net",'' @
     line 6 ''"ipam": {'' @
     line 8 (''"subnet": "'' @ addr @ ''"'') @
     line 6 ''},'' @
     line 6 ''"hairpinMode": true'' @
     line 4 ''}'' @
     line 2 '']'' @
     line 0 ''}''\<close>

definition ip_doc :: "string \<Rightarrow> string" where
  \<open>ip_doc addr =
     [nl] @
     line 0 ''{'' @
     line 2 ''"cniVersion": "0.3.0",'' @
     line 2 ''"name": "weave-net",'' @
     line 2 ''"plugins": ['' @
     line 4 ''{'' @
     line 6 ''"name": "weave-net",'' @
     line 6 ''"type": "weave-net",'' @
     line 6 ''"ipam": {'' @
     line 8 ''"ips": ['' @
     line 8 ''  {'' @
     line 9 ''  "version": "4",'' @
     line 10 (''"address": "'' @ addr @ ''"'') @
     line 8 ''  }'' @
     line 8 '']'' @
     line 6 ''},'' @
     line 6 ''"hairpinMode": true'' @
     line 4 ''}'' @
     line 2 '']'' @
     line 0 ''}''\<close>

text \<open>
  \<^verbatim>\<open>libcni.ConfListFromBytes\<close> is a library function: the parameter \<open>confListFromBytes\<close>.
  The \<^verbatim>\<open>switch\<close> has the cases \<^verbatim>\<open>"net"\<close>, \<^verbatim>\<open>"ip"\<close> and \<^verbatim>\<open>default\<close>.
\<close>

definition newNetworkConfigList ::
  "(string \<Rightarrow> error + 'c) \<Rightarrow> string \<Rightarrow> string \<Rightarrow> error + 'c" where
  "newNetworkConfigList confListFromBytes t addr =
     (if t = ''net'' then confListFromBytes (net_doc addr)
      else if t = ''ip'' then confListFromBytes (ip_doc addr)
      else Inl (New ''unknown type''))"

text \<open>
  Reading the bytes as a JSON document, to state which document they are: the tokens
  of JSON (strings without escape sequences, the three literals, the punctuation,
  white space between them), and the tokens of a JSON value. Numbers do not occur
  in the two documents and are not read.
\<close>

datatype token = LBrace | RBrace | LBrack | RBrack | Colon | Comma
  | TString string | TTrue | TFalse | TNull

definition is_ws :: "char \<Rightarrow> bool" where
  "is_ws c = (c = CHR '' '' \<or> c = CHR 0x09 \<or> c = CHR 0x0A \<or> c = CHR 0x0D)"

definition plain_char :: "char \<Rightarrow> bool" where
  "plain_char c = (c \<noteq> CHR 0x22 \<and> c \<noteq> CHR 0x5C \<and> 32 \<le> (of_char c :: nat))"

definition plain :: "string \<Rightarrow> bool" where
  "plain s = list_all plain_char s"

fun scan :: "string option \<Rightarrow> string \<Rightarrow> token list option" where
  "scan None [] = Some []"
| "scan (Some acc) [] = None"
| "scan (Some acc) (c # cs) =
     (if c = CHR 0x22 then map_option (Cons (TString (rev acc))) (scan None cs)
      else if plain_char c then scan (Some (c # acc)) cs
      else None)"
| "scan None (c # cs) =
     (if is_ws c then scan None cs
      else if c = CHR ''{'' then map_option (Cons LBrace) (scan None cs)
      else if c = CHR ''}'' then map_option (Cons RBrace) (scan None cs)
      else if c = CHR ''['' then map_option (Cons LBrack) (scan None cs)
      else if c = CHR '']'' then map_option (Cons RBrack) (scan None cs)
      else if c = CHR '':'' then map_option (Cons Colon) (scan None cs)
      else if c = CHR '','' then map_option (Cons Comma) (scan None cs)
      else if c = CHR 0x22 then scan (Some []) cs
      else if c = CHR ''t'' \<and> take 3 cs = ''rue''
        then map_option (Cons TTrue) (scan None (drop 3 cs))
      else if c = CHR ''f'' \<and> take 4 cs = ''alse''
        then map_option (Cons TFalse) (scan None (drop 4 cs))
      else if c = CHR ''n'' \<and> take 3 cs = ''ull''
        then map_option (Cons TNull) (scan None (drop 3 cs))
      else None)"

datatype json = JString string | JBool bool | JNull | JArray "json list"
  | JObject "(string \<times> json) list"

fun commas :: "token list list \<Rightarrow> token list" where
  "commas [] = []"
| "commas [ts] = ts"
| "commas (ts # tss) = ts @ Comma # commas tss"

fun tokens_of :: "json \<Rightarrow> token list" where
  "tokens_of (JString s) = [TString s]"
| "tokens_of (JBool b) = [if b then TTrue else TFalse]"
| "tokens_of JNull = [TNull]"
| "tokens_of (JArray vs) = LBrack # commas (map tokens_of vs) @ [RBrack]"
| "tokens_of (JObject kvs) =
     LBrace # commas (map (\<lambda>kv. TString (fst kv) # Colon # tokens_of (snd kv)) kvs) @ [RBrace]"

text \<open>
  The document the spec describes (section 6): \<^verbatim>\<open>cniVersion\<close>, \<^verbatim>\<open>name\<close> and
  \<^verbatim>\<open>plugins[]\<close> with one plugin entry, which carries \<^verbatim>\<open>type\<close> and an \<^verbatim>\<open>ipam\<close>
  object; the latter holds \<^verbatim>\<open>subnet\<close> (pool mode) or
  \<^verbatim>\<open>ips: [{version, address}]\<close> (fixed-address mode).
\<close>

definition conflist_json :: "json \<Rightarrow> json" where
  "conflist_json ipam = JObject
     [(''cniVersion'', JString ''0.3.0''),
      (''name'', JString ''weave-net''),
      (''plugins'', JArray [JObject
         [(''name'', JString ''weave-net''),
          (''type'', JString ''weave-net''),
          (''ipam'', ipam),
          (''hairpinMode'', JBool True)]])]"

definition pool_ipam :: "string \<Rightarrow> json" where
  "pool_ipam subnet = JObject [(''subnet'', JString subnet)]"

definition fixed_ipam :: "string \<Rightarrow> json" where
  "fixed_ipam address =
     JObject [(''ips'', JArray [JObject [(''version'', JString ''4''),
                                         (''address'', JString address)]])]"

subsection \<open>The data of ConfigureNetwork\<close>

text \<open>
  \<^verbatim>\<open>net.IPNet\<close> with its address and mask as bytes, and \<^verbatim>\<open>net.IP.Equal\<close> of Go's
  standard library: an IPv4 address and its 16-byte IPv4-in-IPv6 form are equal.
\<close>

record IPNet =
  IP :: "nat list"
  Mask :: "nat list"

definition v4InV6Prefix :: "nat list" where
  "v4InV6Prefix = [0, 0, 0, 0, 0, 0, 0, 0, 0, 0, 255, 255]"

definition ip_equal :: "nat list \<Rightarrow> nat list \<Rightarrow> bool" where
  "ip_equal ip x =
     (if length ip = length x then ip = x
      else if length ip = 4 \<and> length x = 16 then take 12 x = v4InV6Prefix \<and> ip = drop 12 x
      else if length ip = 16 \<and> length x = 4 then take 12 ip = v4InV6Prefix \<and> drop 12 ip = x
      else False)"

text \<open>\<^verbatim>\<open>libcni.RuntimeConf\<close> as lines 117-123 fill it.\<close>

record RuntimeConf =
  ContainerID :: string
  NetNS :: string
  IfName :: string
  Args :: "(string \<times> string) list"
  CapabilityArgs :: "(string \<times> string) list"

text \<open>
  \<^verbatim>\<open>k8sLink\<close> (lines 21-27). \<open>'h\<close> is the \<^verbatim>\<open>*NetlinkLink\<close> handle and \<open>'c\<close> the
  \<^verbatim>\<open>*libcni.NetworkConfigList\<close>; the two addresses are pointers and can be nil.
\<close>

record ('h, 'c) k8sLink =
  NetlinkLink :: 'h
  IPv4 :: "IPNet option"
  IPv6 :: "IPNet option"
  rt :: RuntimeConf
  netconf :: 'c

text \<open>
  \<^verbatim>\<open>network.Config\<close> of the SDK, the fields this file reads. The shaping profile,
  the rules and the routing policy are only handed on: \<open>'sh\<close>, \<open>'ru\<close>, \<open>'po\<close>.
\<close>

record ('sh, 'ru, 'po) Config =
  Network :: string
  Enable :: bool
  IPv4 :: "IPNet option"
  IPv6 :: "IPNet option"
  Default :: 'sh
  Rules :: "'ru list"
  RoutingPolicy :: 'po

text \<open>
  What the method does to the outside, in the order it does it: the CNI attach and
  detach calls, the sleeps and warnings, the shaping, rule and routing-policy calls.
\<close>

datatype 'c effect = CniAdd 'c RuntimeConf | CniDel 'c RuntimeConf | Sleep int | Warn string
  | ShapeCall | AddRulesCall | RoutingPolicyCall

text \<open>
  \<^verbatim>\<open>K8sNetwork\<close> (lines 29-37). \<open>containerID\<close> is \<^verbatim>\<open>n.container.ID\<close>; \<open>extern\<close> is
  what the handles \<^verbatim>\<open>n.nl\<close> and \<^verbatim>\<open>n.cninet\<close> reach, the kernel namespace and the CNI
  plugin, as an opaque world \<open>'w\<close>; \<open>effects\<close> lists the effects so far, oldest
  first. \<open>'r\<close> is \<^verbatim>\<open>*route\<close>.
\<close>

record ('h, 'c, 'r, 'w) K8sNetwork =
  containerID :: string
  activeLinks :: "string \<rightharpoonup> ('h, 'c) k8sLink"
  externalRouting :: "string \<rightharpoonup> 'r"
  subnet :: string
  netnsPath :: string
  extern :: 'w
  effects :: "'c effect list"

text \<open>
  The functions and the constant of other files and libraries that the method
  uses, as parameters. \<open>'l\<close> is \<^verbatim>\<open>netlink.Link\<close>. \<open>getK8sRoutes\<close> returns a pointer
  and an error. \<open>deadlineFirst\<close> stands for the \<^verbatim>\<open>select\<close> of lines 135-142: whether
  the 30 seconds of \<^verbatim>\<open>time.After\<close> pass before the goroutine of lines 127-133
  delivers the result of \<^verbatim>\<open>retry\<close>; the race itself, and what the goroutine does
  after the method has returned, are not part of this embedding.
\<close>

record ('h, 'c, 'r, 'w, 'l, 'sh, 'ru, 'po) env =
  dataNetworkIfname :: string
  ConfListFromBytes :: "string \<Rightarrow> error + 'c"
  IPNetString :: "IPNet \<Rightarrow> string"
  AddNetworkList :: "'c \<Rightarrow> RuntimeConf \<Rightarrow> 'w \<Rightarrow> error option \<times> 'w"
  DelNetworkList :: "'c \<Rightarrow> RuntimeConf \<Rightarrow> 'w \<Rightarrow> error option \<times> 'w"
  deadlineFirst :: "'w \<Rightarrow> bool"
  LinkByName :: "string \<Rightarrow> 'w \<Rightarrow> error + 'l"
  getK8sRoutes :: "'l \<Rightarrow> 'w \<Rightarrow> 'r option \<times> error option"
  NewNetlinkLink :: "'l \<Rightarrow> 'w \<Rightarrow> error + 'h"
  ListV4 :: "'h \<Rightarrow> 'w \<Rightarrow> error + IPNet list"
  Shape :: "'h \<Rightarrow> 'sh \<Rightarrow> 'w \<Rightarrow> error option \<times> 'w"
  AddRules :: "'h \<Rightarrow> 'ru list \<Rightarrow> 'w \<Rightarrow> error option \<times> 'w"
  handleRoutingPolicy :: "(string \<rightharpoonup> 'r) \<Rightarrow> 'po \<Rightarrow> 'w \<Rightarrow> error option \<times> 'w"

text \<open>How a call of the method ends: it returns nil, returns an error, or panics.\<close>

datatype result = OK | Err error | Panic string

text \<open>
  Modelled from the spec: the constant \<^verbatim>\<open>defaultDataNetwork\<close> is declared in a file
  that is not among the sources; the spec's scenarios A and B name the managed
  network \<^verbatim>\<open>"default"\<close>.
\<close>

definition defaultDataNetwork :: string where
  "defaultDataNetwork = ''default''"

text \<open>Line 49: \<^verbatim>\<open>var skipConfig = true\<close>.\<close>

definition skipConfig :: bool where
  "skipConfig = True"

definition nilDeref :: string where
  "nilDeref = ''invalid memory address or nil pointer dereference''"

subsection \<open>ConfigureNetwork (lines 44-204)\<close>

text \<open>
  The condition of lines 77-78 without \<^verbatim>\<open>online\<close>, with Go's short-circuit order:
  \<^verbatim>\<open>link.IPv6.IP\<close> and \<^verbatim>\<open>link.IPv4.IP\<close> dereference the link's pointers.
\<close>

definition v4Changed :: "('h, 'c) k8sLink \<Rightarrow> ('sh, 'ru, 'po) Config \<Rightarrow> string + bool" where
  "v4Changed link cfg =
     (case Config.IPv4 cfg of
        None \<Rightarrow> Inr False
      | Some c4 \<Rightarrow>
          (case k8sLink.IPv4 link of
             None \<Rightarrow> Inl nilDeref
           | Some l4 \<Rightarrow> Inr (\<not> ip_equal (IP l4) (IP c4))))"

definition addrChanged :: "('h, 'c) k8sLink \<Rightarrow> ('sh, 'ru, 'po) Config \<Rightarrow> string + bool" where
  "addrChanged link cfg =
     (case Config.IPv6 cfg of
        None \<Rightarrow> v4Changed link cfg
      | Some c6 \<Rightarrow>
          (case k8sLink.IPv6 link of
             None \<Rightarrow> Inl nilDeref
           | Some l6 \<Rightarrow>
               if \<not> ip_equal (IP l6) (IP c6) then Inr True else v4Changed link cfg))"

text \<open>\<^verbatim>\<open>n.cninet.DelNetworkList(ctx, link.netconf, link.rt)\<close>, lines 69 and 85.\<close>

definition delNetworkList ::
  "('h, 'c, 'r, 'w, 'l, 'sh, 'ru, 'po) env \<Rightarrow> ('h, 'c) k8sLink \<Rightarrow> ('h, 'c, 'r, 'w) K8sNetwork
   \<Rightarrow> error option \<times> ('h, 'c, 'r, 'w) K8sNetwork" where
  "delNetworkList env link n =
     (case DelNetworkList env (netconf link) (rt link) (extern n) of
        (err, w) \<Rightarrow>
          (err, n\<lparr>extern := w, effects := effects n @ [CniDel (netconf link) (rt link)]\<rparr>))"

text \<open>Lines 193-203: shaping, rules and routing policy on the link.\<close>

definition applyConfig ::
  "('h, 'c, 'r, 'w, 'l, 'sh, 'ru, 'po) env \<Rightarrow> ('sh, 'ru, 'po) Config \<Rightarrow> ('h, 'c) k8sLink
   \<Rightarrow> ('h, 'c, 'r, 'w) K8sNetwork \<Rightarrow> result \<times> ('h, 'c, 'r, 'w) K8sNetwork" where
  "applyConfig env cfg link n =
     (case Shape env (NetlinkLink link) (Default cfg) (extern n) of
        (err1, w1) \<Rightarrow>
          let n1 = n\<lparr>extern := w1, effects := effects n @ [ShapeCall]\<rparr> in
          (case err1 of
             Some e \<Rightarrow> (Err (Wrapf ''failed to shape link: '' e), n1)
           | None \<Rightarrow>
               (case AddRules env (NetlinkLink link) (Rules cfg) (extern n1) of
                  (err2, w2) \<Rightarrow>
                    let n2 = n1\<lparr>extern := w2, effects := effects n1 @ [AddRulesCall]\<rparr> in
                    (case err2 of
                       Some e \<Rightarrow> (Err e, n2)
                     | None \<Rightarrow>
                         (case handleRoutingPolicy env (externalRouting n2) (RoutingPolicy cfg)
                                 (extern n2) of
                            (err3, w3) \<Rightarrow>
                              let n3 = n2\<lparr>extern := w3,
                                          effects := effects n2 @ [RoutingPolicyCall]\<rparr> in
                              (case err3 of Some e \<Rightarrow> (Err e, n3) | None \<Rightarrow> (OK, n3)))))))"

text \<open>The events of \<^verbatim>\<open>retry\<close> around \<^verbatim>\<open>AddNetworkList\<close> (lines 128-131), as effects.\<close>

definition attach_effect :: "'c \<Rightarrow> RuntimeConf \<Rightarrow> retry_event \<Rightarrow> 'c effect" where
  "attach_effect conf rtc ev =
     (case ev of Attempt r \<Rightarrow> CniAdd conf rtc | Warned m \<Rightarrow> Warn m | Slept d \<Rightarrow> Sleep d)"

text \<open>
  Lines 144-190, after a successful attach: the interface, its routes, the handle,
  its addresses, the new link. \<^verbatim>\<open>routes.routes\<close> dereferences the pointer that
  \<^verbatim>\<open>getK8sRoutes\<close> returned before its error is looked at, and \<^verbatim>\<open>v4addrs[0]\<close>
  indexes the list whatever its length. A left result ends the call.
\<close>

definition registerLink ::
  "('h, 'c, 'r, 'w, 'l, 'sh, 'ru, 'po) env \<Rightarrow> ('sh, 'ru, 'po) Config \<Rightarrow> 'c \<Rightarrow> RuntimeConf
   \<Rightarrow> ('h, 'c, 'r, 'w) K8sNetwork
   \<Rightarrow> (result + ('h, 'c) k8sLink) \<times> ('h, 'c, 'r, 'w) K8sNetwork" where
  "registerLink env cfg conf rtc n =
     (case LinkByName env (dataNetworkIfname env) (extern n) of
        Inl e \<Rightarrow>
          (Inl (Err (Wrapf (''failed to get link by name '' @ dataNetworkIfname env @ '': '') e)), n)
      | Inr netlinkByName \<Rightarrow>
          (case getK8sRoutes env netlinkByName (extern n) of
             (None, err) \<Rightarrow> (Inl (Panic nilDeref), n)
           | (Some routes, err) \<Rightarrow>
               let n1 = n\<lparr>externalRouting :=
                            (externalRouting n)(dataNetworkIfname env \<mapsto> routes)\<rparr> in
               (case err of
                  Some e \<Rightarrow> (Inl (Err e), n1)
                | None \<Rightarrow>
                    (case NewNetlinkLink env netlinkByName (extern n1) of
                       Inl e \<Rightarrow> (Inl (Err (Wrapf ''failed to register new netlink: '' e)), n1)
                     | Inr handle \<Rightarrow>
                         (case ListV4 env handle (extern n1) of
                            Inl e \<Rightarrow> (Inl (Err (Wrapf ''failed to list v4 addrs: '' e)), n1)
                          | Inr v4addrs \<Rightarrow>
                              let n2 = (if length v4addrs \<noteq> 1
                                        then n1\<lparr>effects := effects n1 @
                                               [Warn (''Found '' @ itoa (int (length v4addrs)) @
                                                      '' v4 addresses, expected just 1'')]\<rparr>
                                        else n1) in
                              (case v4addrs of
                                 [] \<Rightarrow> (Inl (Panic ''index out of range [0] with length 0''), n2)
                               | a # _ \<Rightarrow>
                                   let link = \<lparr>NetlinkLink = handle, IPv4 = Some a, IPv6 = None,
                                               rt = rtc, netconf = conf\<rparr> in
                                   (Inr link,
                                    n2\<lparr>activeLinks := (activeLinks n2)(Network cfg \<mapsto> link)\<rparr>)))))))"

text \<open>Lines 92-142: the branch \<^verbatim>\<open>if !online\<close> up to the result of the attach.\<close>

definition connect ::
  "('h, 'c, 'r, 'w, 'l, 'sh, 'ru, 'po) env \<Rightarrow> ('sh, 'ru, 'po) Config \<Rightarrow> ('h, 'c, 'r, 'w) K8sNetwork
   \<Rightarrow> (result + ('h, 'c) k8sLink) \<times> ('h, 'c, 'r, 'w) K8sNetwork" where
  "connect env cfg n =
     (if Config.IPv6 cfg \<noteq> None then (Inl (Err (New ''ipv6 not supported'')), n)
      else
        (case (case Config.IPv4 cfg of
                 None \<Rightarrow> newNetworkConfigList (ConfListFromBytes env) ''net'' (subnet n)
               | Some a \<Rightarrow> newNetworkConfigList (ConfListFromBytes env) ''ip'' (IPNetString env a)) of
           Inl e \<Rightarrow> (Inl (Err (Wrapf ''failed to generate new network config list: '' e)), n)
         | Inr conf \<Rightarrow>
             let rtc = \<lparr>ContainerID = containerID n, NetNS = netnsPath n,
                        IfName = dataNetworkIfname env, Args = [], CapabilityArgs = []\<rparr> in
             (case retry 3 (2 * Second) (AddNetworkList env conf rtc) (extern n) of
                (err, w, tr) \<Rightarrow>
                  let n1 = n\<lparr>extern := w,
                              effects := effects n @ map (attach_effect conf rtc) tr\<rparr> in
                  if deadlineFirst env w
                  then (Inl (Err (New ''timeout waiting on cninet.AddNetworkList'')), n1)
                  else (case err of
                          Some e \<Rightarrow>
                            (Inl (Err (Wrapf ''failed to add network through cni plugin: '' e)), n1)
                        | None \<Rightarrow> registerLink env cfg conf rtc n1))))"

text \<open>
  Lines 62 and 77-89: the link of the network, disconnected first when the
  configuration asks for another address. The right result is the link that is
  online afterwards, if any.
\<close>

definition reconnect ::
  "('h, 'c, 'r, 'w, 'l, 'sh, 'ru, 'po) env \<Rightarrow> ('sh, 'ru, 'po) Config \<Rightarrow> ('h, 'c, 'r, 'w) K8sNetwork
   \<Rightarrow> (result + ('h, 'c) k8sLink option) \<times> ('h, 'c, 'r, 'w) K8sNetwork" where
  "reconnect env cfg n =
     (case activeLinks n (Network cfg) of
        None \<Rightarrow> (Inr None, n)
      | Some link \<Rightarrow>
          (case addrChanged link cfg of
             Inl p \<Rightarrow> (Inl (Panic p), n)
           | Inr False \<Rightarrow> (Inr (Some link), n)
           | Inr True \<Rightarrow>
               (case delNetworkList env link n of
                  (Some e, n1) \<Rightarrow> (Inl (Err (Wrapf ''when 5: '' e)), n1)
                | (None, n1) \<Rightarrow>
                    (Inr None, n1\<lparr>activeLinks := (activeLinks n1)(Network cfg := None)\<rparr>))))"

text \<open>
  Lines 55-203, the statements after the skip: disabling (lines 65-75), then
  \<open>reconnect\<close>, \<open>connect\<close> and \<open>applyConfig\<close>. The debug logging of lines 55-60 has
  no effect that is modelled.
\<close>

definition configureSteps ::
  "('h, 'c, 'r, 'w, 'l, 'sh, 'ru, 'po) env \<Rightarrow> ('sh, 'ru, 'po) Config \<Rightarrow> ('h, 'c, 'r, 'w) K8sNetwork
   \<Rightarrow> result \<times> ('h, 'c, 'r, 'w) K8sNetwork" where
  "configureSteps env cfg n =
     (if \<not> Enable cfg then
        (case activeLinks n (Network cfg) of
           None \<Rightarrow> (OK, n)
         | Some link \<Rightarrow>
             (case delNetworkList env link n of
                (Some e, n1) \<Rightarrow> (Err (Wrapf ''when 6: '' e), n1)
              | (None, n1) \<Rightarrow> (OK, n1\<lparr>activeLinks := (activeLinks n1)(Network cfg := None)\<rparr>)))
      else
        (case reconnect env cfg n of
           (Inl exit, n1) \<Rightarrow> (exit, n1)
         | (Inr (Some link), n1) \<Rightarrow> applyConfig env cfg link n1
         | (Inr None, n1) \<Rightarrow>
             (case connect env cfg n1 of
                (Inl exit, n2) \<Rightarrow> (exit, n2)
              | (Inr link, n2) \<Rightarrow> applyConfig env cfg link n2)))"

text \<open>
  The method: the check of the network name (lines 45-47), the skip (lines 49-53),
  then the statements above.
\<close>

definition ConfigureNetwork ::
  "('h, 'c, 'r, 'w, 'l, 'sh, 'ru, 'po) env \<Rightarrow> ('sh, 'ru, 'po) Config \<Rightarrow> ('h, 'c, 'r, 'w) K8sNetwork
   \<Rightarrow> result \<times> ('h, 'c, 'r, 'w) K8sNetwork" where
  "ConfigureNetwork env cfg n =
     (if Network cfg \<noteq> defaultDataNetwork
      then (Err (New (''configured network is not '' @ [CHR 0x60] @ defaultDataNetwork @ [CHR 0x60])), n)
      else if skipConfig then (OK, n)
      else configureSteps env cfg n)"

subsection \<open>A plugin, a kernel, configurations and sidecars to run the method on\<close>

definition addrA :: IPNet where
  "addrA = \<lparr>IP = [10, 0, 0, 5], Mask = [255, 255, 255, 0]\<rparr>"

definition addrB :: IPNet where
  "addrB = \<lparr>IP = [10, 0, 0, 9], Mask = [255, 255, 255, 0]\<rparr>"

definition addr6 :: IPNet where
  "addr6 = \<lparr>IP = [253, 0, 0, 0, 0, 0, 0, 0, 0, 0, 0, 0, 0, 0, 0, 1],
            Mask = [255, 255, 255, 255, 255, 255, 255, 255, 0, 0, 0, 0, 0, 0, 0, 0]\<rparr>"

text \<open>
  A plugin that attaches and detaches at the first attempt (the world counts its
  invocations), and a kernel whose interface reports the addresses \<open>addrs\<close>; the
  parsed configuration list is the document itself.
\<close>

definition plugin :: "IPNet list \<Rightarrow> (string, string, string list, nat, string, nat, nat, bool) env" where
  "plugin addrs =
     \<lparr>dataNetworkIfname = ''eth1'',
      ConfListFromBytes = Inr,
      IPNetString = (\<lambda>a. if a = addrA then ''10.0.0.5/24''
                          else if a = addrB then ''10.0.0.9/24'' else ''<nil>''),
      AddNetworkList = (\<lambda>conf rtc w. (None, Suc w)),
      DelNetworkList = (\<lambda>conf rtc w. (None, Suc w)),
      deadlineFirst = (\<lambda>w. False),
      LinkByName = (\<lambda>name w. Inr name),
      getK8sRoutes = (\<lambda>l w. (Some [''100.96.0.0/11''], None)),
      NewNetlinkLink = (\<lambda>l w. Inr l),
      ListV4 = (\<lambda>h w. Inr addrs),
      Shape = (\<lambda>h sh w. (None, w)),
      AddRules = (\<lambda>h rs w. (None, w)),
      handleRoutingPolicy = (\<lambda>routing po w. (None, w))\<rparr>"

definition scenarioA :: "(nat, nat, bool) Config" where
  "scenarioA = \<lparr>Network = ''default'', Enable = True, IPv4 = Some addrA, IPv6 = None,
                Default = 0, Rules = [], RoutingPolicy = True\<rparr>"

definition cfgV6 :: "(nat, nat, bool) Config" where
  "cfgV6 = scenarioA\<lparr>Config.IPv4 := None, Config.IPv6 := Some addr6\<rparr>"

definition cfgDisable :: "(nat, nat, bool) Config" where
  "cfgDisable = scenarioA\<lparr>Enable := False\<rparr>"

definition cfgReaddress :: "(nat, nat, bool) Config" where
  "cfgReaddress = scenarioA\<lparr>Config.IPv4 := Some addrB\<rparr>"

definition rtA :: RuntimeConf where
  "rtA = \<lparr>ContainerID = ''c1'', NetNS = ''/proc/7/ns/net'', IfName = ''eth1'',
          Args = [], CapabilityArgs = []\<rparr>"

definition linkA :: "(string, string) k8sLink" where
  "linkA = \<lparr>NetlinkLink = ''eth1'', IPv4 = Some addrA, IPv6 = None, rt = rtA,
            netconf = ip_doc ''10.0.0.5/24''\<rparr>"

definition offline :: "(string, string, string list, nat) K8sNetwork" where
  "offline = \<lparr>containerID = ''c1'', activeLinks = Map.empty, externalRouting = Map.empty,
              subnet = ''10.32.0.0/12'', netnsPath = ''/proc/7/ns/net'', extern = 0,
              effects = []\<rparr>"

definition online :: "(string, string, string list, nat) K8sNetwork" where
  "online = offline\<lparr>activeLinks := [''default'' \<mapsto> linkA]\<rparr>"

section \<open>Properties\<close>

subsection \<open>retry\<close>

lemma sub64_id: "- (2 ^ 63) < n \<Longrightarrow> n < 2 ^ 63 \<Longrightarrow> sub64 n 1 = n - 1"
  unfolding sub64_def by (simp add: mod_pos_pos_trivial)

lemma res_0: "res f s 0 = fst (f s)"
  by (simp add: res_def)

lemma res_Suc: "res f s (Suc k) = res f (snd (f s)) k"
  by (simp add: res_def)

lemma retry_loop_rounds:
  "n < 2 ^ 63 \<Longrightarrow> 0 \<le> i \<Longrightarrow> i < n \<Longrightarrow>
    \<exists>k < nat (n - i).
      (\<forall>j < k. res f s j \<noteq> None) \<and>
      (res f s k \<noteq> None \<longrightarrow> Suc k = nat (n - i)) \<and>
      retry_loop n d f i s =
        (map_option (exhausted n) (res f s k), run f s (Suc k),
         concat (map (\<lambda>j. failed_round d (res f s j)) [0 ..< k]) @ last_round (res f s k))"
proof (induction n d f i s rule: retry_loop.induct)
  case (1 attempts sleep f i s)
  have b: "sub64 attempts 1 = attempts - 1"
    using 1(2,3,4) sub64_id[of attempts] by simp
  obtain r s' where fs: "f s = (r, s')" by (cases "f s")
  show ?case
  proof (cases r)
    case None
    have "retry_loop attempts sleep f i s = (None, s', [Attempt None])"
      by (subst retry_loop.simps) (simp add: fs None)
    then show ?thesis using 1(3,4) fs None
      by (intro exI[of _ 0]) (simp add: res_0 last_round_def)
  next
    case (Some e)
    show ?thesis
    proof (cases "i \<ge> attempts - 1")
      case True
      have "retry_loop attempts sleep f i s =
          (Some (exhausted attempts e), s', [Attempt (Some e), Warned (Error e)])"
        by (subst retry_loop.simps) (simp add: fs Some True b exhausted_def)
      moreover have "nat (attempts - i) = 1" using True 1(4) by simp
      ultimately show ?thesis using fs Some
        by (intro exI[of _ 0]) (simp add: res_0 last_round_def)
    next
      case False
      then have lt: "i + 1 < attempts" by simp
      from 1(1)[OF fs[symmetric] Some _ 1(2) _ lt] False b 1(3)
      obtain k where k: "k < nat (attempts - (i + 1))"
        "\<forall>j < k. res f s' j \<noteq> None"
        "res f s' k \<noteq> None \<longrightarrow> Suc k = nat (attempts - (i + 1))"
        "retry_loop attempts sleep f (i + 1) s' =
          (map_option (exhausted attempts) (res f s' k), run f s' (Suc k),
           concat (map (\<lambda>j. failed_round sleep (res f s' j)) [0 ..< k]) @ last_round (res f s' k))"
        by auto
      have step: "retry_loop attempts sleep f i s =
          (map_option (exhausted attempts) (res f s' k), run f s' (Suc k),
           [Attempt (Some e), Warned (Error e), Slept sleep] @
           concat (map (\<lambda>j. failed_round sleep (res f s' j)) [0 ..< k]) @ last_round (res f s' k))"
        by (subst retry_loop.simps) (simp add: fs Some False b k(4))
      have shift: "\<And>j. res f s (Suc j) = res f s' j" by (simp add: res_Suc fs)
      have all: "\<forall>j < Suc k. res f s j \<noteq> None"
      proof (intro allI impI)
        fix j assume "j < Suc k"
        then show "res f s j \<noteq> None"
          using k(2) by (cases j) (auto simp: res_0 fs Some shift)
      qed
      have tr: "concat (map (\<lambda>j. failed_round sleep (res f s j)) [0 ..< Suc k]) =
          [Attempt (Some e), Warned (Error e), Slept sleep] @
          concat (map (\<lambda>j. failed_round sleep (res f s' j)) [0 ..< k])"
        by (simp only: map_upt_Suc shift) (simp add: res_0 fs Some failed_round_def)
      have "Suc k < nat (attempts - i)" using k(1) by linarith
      moreover have "res f s (Suc k) \<noteq> None \<longrightarrow> Suc (Suc k) = nat (attempts - i)"
        using k(3) lt by (auto simp: shift)
      moreover have "retry_loop attempts sleep f i s =
          (map_option (exhausted attempts) (res f s (Suc k)), run f s (Suc (Suc k)),
           concat (map (\<lambda>j. failed_round sleep (res f s j)) [0 ..< Suc k]) @
           last_round (res f s (Suc k)))"
        unfolding tr shift using step by (simp add: fs)
      ultimately show ?thesis using all by blast
    qed
  qed
qed

lemma retry_loop_ok:
  "fst (f s) = None \<Longrightarrow> retry_loop n d f i s = (None, snd (f s), [Attempt None])"
  by (subst retry_loop.simps) (simp add: case_prod_beta)

lemma retry_loop_last:
  "fst (f s) \<noteq> None \<Longrightarrow> sub64 n 1 \<le> i \<Longrightarrow>
   retry_loop n d f i s =
     (Some (New (''after '' @ itoa n @ '' attempts, last error: '' @ Error (the (fst (f s))))),
      snd (f s), [Attempt (fst (f s)), Warned (Error (the (fst (f s))))])"
  by (subst retry_loop.simps) (auto simp: case_prod_beta split: option.splits)

lemma retry_loop_again:
  "fst (f s) \<noteq> None \<Longrightarrow> \<not> sub64 n 1 \<le> i \<Longrightarrow>
   retry_loop n d f i s =
     (fst (retry_loop n d f (i + 1) (snd (f s))),
      fst (snd (retry_loop n d f (i + 1) (snd (f s)))),
      [Attempt (fst (f s)), Warned (Error (the (fst (f s)))), Slept d] @
      snd (snd (retry_loop n d f (i + 1) (snd (f s)))))"
  by (subst retry_loop.simps) (auto simp: case_prod_beta split: option.splits)

lemma calls_append: "calls (xs @ ys) = calls xs + calls ys"
  by (simp add: calls_def)

lemma calls_failed_rounds: "calls (concat (map (\<lambda>j. failed_round d (g j)) js)) = length js"
  by (induction js) (simp_all add: calls_def failed_round_def)

lemma calls_last_round: "calls (last_round r) = 1"
  by (cases r) (simp_all add: calls_def last_round_def)

lemma retry_rounds:
  assumes "1 \<le> n" "n < 2 ^ 63"
  shows "\<exists>k < nat n.
      (\<forall>j < k. res f s j \<noteq> None) \<and>
      (res f s k \<noteq> None \<longrightarrow> Suc k = nat n) \<and>
      retry n d f s =
        (map_option (exhausted n) (res f s k), run f s (Suc k),
         concat (map (\<lambda>j. failed_round d (res f s j)) [0 ..< k]) @ last_round (res f s k))"
  using retry_loop_rounds[of n 0 f s d] assms by (simp add: retry_def)

text \<open>
  Claim C4. For an attempt count \<open>n \<ge> 1\<close> (a Go \<^verbatim>\<open>int\<close>, so below \<open>2^63\<close>),
  \<^verbatim>\<open>retry(n, d, f)\<close> calls \<open>f\<close> at most \<open>n\<close> times. There is a \<open>k < n\<close> such
  that \<open>f\<close> is called \<open>k + 1\<close> times, the first \<open>k\<close> calls fail and each is followed
  by its warning and a sleep of \<open>d\<close> before the next call, and the trace ends with
  the last call. If that call succeeds the result is nil and nothing follows it;
  if it fails it is call number \<open>n\<close> and the result is the one error
  \<^verbatim>\<open>after n attempts, last error: e\<close> with the message of that last failure.
\<close>

theorem retry_semantics:
  assumes "1 \<le> n" "n < 2 ^ 63" "retry n d f s = (r, s', tr)"
  shows "calls tr \<le> nat n \<and>
    (\<exists>k < nat n.
       calls tr = Suc k \<and> s' = run f s (Suc k) \<and>
       (\<forall>j < k. res f s j \<noteq> None) \<and>
       tr = concat (map (\<lambda>j. failed_round d (res f s j)) [0 ..< k]) @ last_round (res f s k) \<and>
       (res f s k = None \<longrightarrow> r = None) \<and>
       (\<forall>e. res f s k = Some e \<longrightarrow>
          Suc k = nat n \<and>
          r = Some (New (''after '' @ itoa n @ '' attempts, last error: '' @ Error e))))"
proof -
  from retry_rounds[OF assms(1,2), of f s d]
  obtain k where lt: "k < nat n" and fails: "\<forall>j < k. res f s j \<noteq> None"
    and full: "res f s k \<noteq> None \<longrightarrow> Suc k = nat n"
    and eq: "retry n d f s =
        (map_option (exhausted n) (res f s k), run f s (Suc k),
         concat (map (\<lambda>j. failed_round d (res f s j)) [0 ..< k]) @ last_round (res f s k))"
    by blast
  from eq assms(3) have r: "r = map_option (exhausted n) (res f s k)"
    and s': "s' = run f s (Suc k)"
    and tr: "tr = concat (map (\<lambda>j. failed_round d (res f s j)) [0 ..< k]) @ last_round (res f s k)"
    by simp_all
  have c: "calls tr = Suc k"
    unfolding tr by (simp add: calls_append calls_failed_rounds calls_last_round)
  have le: "calls tr \<le> nat n" using c lt by simp
  have ok: "res f s k = None \<longrightarrow> r = None" using r by simp
  have bad: "\<forall>e. res f s k = Some e \<longrightarrow>
      Suc k = nat n \<and> r = Some (New (''after '' @ itoa n @ '' attempts, last error: '' @ Error e))"
    using full r by (simp add: exhausted_def)
  show ?thesis
  proof (intro conjI exI[of _ k])
    show "calls tr \<le> nat n" by (rule le)
    show "k < nat n" by (rule lt)
    show "calls tr = Suc k" by (rule c)
    show "s' = run f s (Suc k)" by (rule s')
    show "\<forall>j < k. res f s j \<noteq> None" by (rule fails)
    show "tr = concat (map (\<lambda>j. failed_round d (res f s j)) [0 ..< k]) @ last_round (res f s k)"
      by (rule tr)
    show "res f s k = None \<longrightarrow> r = None" by (rule ok)
    show "\<forall>e. res f s k = Some e \<longrightarrow>
      Suc k = nat n \<and> r = Some (New (''after '' @ itoa n @ '' attempts, last error: '' @ Error e))"
      by (rule bad)
  qed
qed

lemma flaky_results:
  "res flaky 0 0 = Some (New ''transient'')"
  "res flaky 0 (Suc 0) = Some (New ''transient'')"
  "res flaky 0 (Suc (Suc 0)) = None"
  by (simp_all add: res_def flaky_def)

text \<open>
  The theorem at \<^verbatim>\<open>retry(3, 2*time.Second, f)\<close> for an \<open>f\<close> that fails twice and then
  succeeds: nil after exactly three calls.
\<close>

theorem retry_semantics_witness:
  "fst (retry 3 (2 * Second) flaky 0) = None \<and> calls (snd (snd (retry 3 (2 * Second) flaky 0))) = 3"
proof -
  obtain r s' tr where eq: "retry 3 (2 * Second) flaky 0 = (r, s', tr)"
    by (cases "retry 3 (2 * Second) flaky 0")
  have "calls tr \<le> nat 3 \<and>
    (\<exists>k < nat 3.
       calls tr = Suc k \<and> s' = run flaky 0 (Suc k) \<and>
       (\<forall>j < k. res flaky 0 j \<noteq> None) \<and>
       tr = concat (map (\<lambda>j. failed_round (2 * Second) (res flaky 0 j)) [0 ..< k]) @
            last_round (res flaky 0 k) \<and>
       (res flaky 0 k = None \<longrightarrow> r = None) \<and>
       (\<forall>e. res flaky 0 k = Some e \<longrightarrow>
          Suc k = nat 3 \<and>
          r = Some (New (''after '' @ itoa 3 @ '' attempts, last error: '' @ Error e))))"
    by (rule retry_semantics[OF _ _ eq]) simp_all
  then obtain k where k: "k < 3" "calls tr = Suc k" "res flaky 0 k = None \<longrightarrow> r = None"
    "\<forall>e. res flaky 0 k = Some e \<longrightarrow> Suc k = 3"
    by auto
  have "k = 0 \<or> k = Suc 0 \<or> k = Suc (Suc 0)" using k(1) by linarith
  then have "k = Suc (Suc 0)" using k(4) flaky_results by auto
  then show ?thesis using k(2,3) flaky_results eq by simp
qed

text \<open>
  Against claim C5 as stated: with a context that is done, so that every attach
  reports \<^verbatim>\<open>context.Canceled\<close>, \<^verbatim>\<open>retry(3, 2*time.Second, f)\<close> still makes all three
  attempts and sleeps between them.
\<close>

theorem retry_after_cancel_counterexample:
  "retry 3 (2 * Second) ctx_attach True =
     (Some (New ''after 3 attempts, last error: context canceled''), True,
      [Attempt (Some Canceled), Warned ''context canceled'', Slept 2000000000,
       Attempt (Some Canceled), Warned ''context canceled'', Slept 2000000000,
       Attempt (Some Canceled), Warned ''context canceled''])"
  by (simp add: retry_def retry_loop_last retry_loop_again ctx_attach_def Canceled_def
      sub64_def Second_def itoa_def digits.simps)

text \<open>
  Claim C5, amended. \<^verbatim>\<open>retry\<close> takes no context and looks at no error: when every
  call of \<open>f\<close> fails, with \<^verbatim>\<open>context.Canceled\<close> or with anything else, \<open>f\<close> is
  called exactly \<open>n\<close> times (for \<open>n \<ge> 1\<close>) and the result is an error.
\<close>

theorem retry_runs_out_the_budget:
  assumes "1 \<le> n" "n < 2 ^ 63" "\<forall>j < nat n. res f s j \<noteq> None"
  shows "calls (snd (snd (retry n d f s))) = nat n \<and> fst (retry n d f s) \<noteq> None"
proof -
  from retry_rounds[OF assms(1,2), of f s d]
  obtain k where k: "k < nat n" "res f s k \<noteq> None \<longrightarrow> Suc k = nat n"
    "retry n d f s =
        (map_option (exhausted n) (res f s k), run f s (Suc k),
         concat (map (\<lambda>j. failed_round d (res f s j)) [0 ..< k]) @ last_round (res f s k))"
    by auto
  have f: "res f s k \<noteq> None" using assms(3) k(1) by simp
  then have "Suc k = nat n" using k(2) by simp
  then show ?thesis using f
    by (simp add: k(3) calls_append calls_failed_rounds calls_last_round)
qed

lemma run_ctx_attach: "run ctx_attach True k = True"
  by (induction k) (simp_all add: ctx_attach_def)

theorem retry_runs_out_the_budget_witness:
  "calls (snd (snd (retry 3 (2 * Second) ctx_attach True))) = 3 \<and>
   fst (retry 3 (2 * Second) ctx_attach True) \<noteq> None"
  using retry_runs_out_the_budget[of 3 ctx_attach True "2 * Second"]
  by (simp add: res_def run_ctx_attach ctx_attach_def)

subsection \<open>newNetworkConfigList\<close>

lemma scan_string:
  "plain addr \<Longrightarrow>
   scan (Some acc) (addr @ CHR 0x22 # rest) =
     map_option (Cons (TString (rev acc @ addr))) (scan None rest)"
  by (induction addr arbitrary: acc) (auto simp: plain_def plain_char_def)

lemma line_0: "line 0 s = s @ [nl]"
  by (simp add: line_def)

lemma line_Suc: "line (Suc k) s = tab # line k s"
  by (simp add: line_def)

lemma scan_net_doc:
  assumes "plain addr"
  shows "scan None (net_doc addr) = Some (tokens_of (conflist_json (pool_ipam addr)))"
  unfolding net_doc_def
  by (simp add: line_0 line_Suc eval_nat_numeral tab_def nl_def is_ws_def plain_char_def
      scan_string[OF assms, of "[]", simplified] conflist_json_def pool_ipam_def)

lemma scan_ip_doc:
  assumes "plain addr"
  shows "scan None (ip_doc addr) = Some (tokens_of (conflist_json (fixed_ipam addr)))"
  unfolding ip_doc_def
  by (simp add: line_0 line_Suc eval_nat_numeral tab_def nl_def is_ws_def plain_char_def
      scan_string[OF assms, of "[]", simplified] conflist_json_def fixed_ipam_def)

text \<open>
  Claim C7. \<^verbatim>\<open>newNetworkConfigList\<close> supports exactly two kinds. For an address
  string without quote, backslash or control character (every subnet or address in
  CIDR notation is one), kind \<^verbatim>\<open>"net"\<close> hands \<^verbatim>\<open>ConfListFromBytes\<close> the document
  whose single plugin entry has the ipam object \<^verbatim>\<open>{subnet: addr}\<close>, and kind
  \<^verbatim>\<open>"ip"\<close> the document whose ipam object is
  \<^verbatim>\<open>{ips: [{version: "4", address: addr}]}\<close>; the result is what the library makes
  of that document. Every other kind gives the error \<^verbatim>\<open>unknown type\<close> and no
  configuration list.
\<close>

theorem newNetworkConfigList_kinds:
  "(plain addr \<longrightarrow>
      newNetworkConfigList confListFromBytes ''net'' addr = confListFromBytes (net_doc addr) \<and>
      scan None (net_doc addr) = Some (tokens_of (conflist_json (pool_ipam addr))) \<and>
      newNetworkConfigList confListFromBytes ''ip'' addr = confListFromBytes (ip_doc addr) \<and>
      scan None (ip_doc addr) = Some (tokens_of (conflist_json (fixed_ipam addr)))) \<and>
   (t \<noteq> ''net'' \<and> t \<noteq> ''ip'' \<longrightarrow>
      newNetworkConfigList confListFromBytes t addr = Inl (New ''unknown type''))"
  by (simp add: newNetworkConfigList_def scan_net_doc scan_ip_doc)

text \<open>The theorem at the subnet \<^verbatim>\<open>10.32.0.0/12\<close> and at the kind \<^verbatim>\<open>bridge\<close>.\<close>

theorem newNetworkConfigList_kinds_witness:
  "newNetworkConfigList Inr ''net'' ''10.32.0.0/12'' = Inr (net_doc ''10.32.0.0/12'') \<and>
   scan None (net_doc ''10.32.0.0/12'') =
     Some (tokens_of (conflist_json (pool_ipam ''10.32.0.0/12''))) \<and>
   newNetworkConfigList Inr ''ip'' ''10.32.0.0/12'' = Inr (ip_doc ''10.32.0.0/12'') \<and>
   scan None (ip_doc ''10.32.0.0/12'') =
     Some (tokens_of (conflist_json (fixed_ipam ''10.32.0.0/12''))) \<and>
   newNetworkConfigList Inr ''bridge'' ''10.32.0.0/12'' =
     (Inl (New ''unknown type'') :: error + string)"
  using newNetworkConfigList_kinds[of "''10.32.0.0/12''" "Inr :: string \<Rightarrow> error + string" "''bridge''"]
  by (simp add: plain_def plain_char_def)

text \<open>An address that holds a quote is outside the theorem: the bytes are then no
  JSON document.\<close>

lemma net_doc_quote: "scan None (net_doc [CHR 0x22]) = None"
  unfolding net_doc_def
  by (simp add: line_def eval_nat_numeral tab_def nl_def is_ws_def plain_char_def)

subsection \<open>ConfigureNetwork\<close>

text \<open>
  Claim C1. For every configuration whose network is the managed default data
  network, \<^verbatim>\<open>ConfigureNetwork\<close> returns nil right after the check of the name,
  because \<^verbatim>\<open>skipConfig\<close> is true: the sidecar is returned as it was, with its
  active links, its external routing, the world behind its handles and the list of
  its effects (no CNI attach or detach, no shaping, rules or routing policy),
  whatever the plugin and the kernel would do. No later statement is reached.
\<close>

theorem ConfigureNetwork_skips:
  "Network cfg = defaultDataNetwork \<Longrightarrow> ConfigureNetwork env cfg n = (OK, n)"
  by (simp add: ConfigureNetwork_def skipConfig_def)

theorem ConfigureNetwork_skips_witness:
  "Network scenarioA = defaultDataNetwork \<and>
   ConfigureNetwork (plugin [addrA]) scenarioA offline = (OK, offline)"
  using ConfigureNetwork_skips[of scenarioA "plugin [addrA]" offline]
  by (simp add: scenarioA_def defaultDataNetwork_def)

text \<open>
  Against claim C2 as stated: for a configuration of the managed network with an
  IPv6 address the method returns nil, not the error \<^verbatim>\<open>ipv6 not supported\<close>.
\<close>

theorem ipv6_not_rejected_counterexample:
  "fst (ConfigureNetwork (plugin [addrA]) cfgV6 offline) = OK \<and>
   fst (ConfigureNetwork (plugin [addrA]) cfgV6 offline) \<noteq> Err (New ''ipv6 not supported'')"
  by (simp add: ConfigureNetwork_def skipConfig_def cfgV6_def scenarioA_def defaultDataNetwork_def)

text \<open>
  Claim C2, amended. For every configuration of the managed network with a non-nil
  IPv6 address, \<^verbatim>\<open>ConfigureNetwork\<close> returns nil without touching any state: no CNI
  attach or detach call and the same active links, whether a link is online or
  not, whether \<^verbatim>\<open>Enable\<close> is false, and whether another address is asked for.
\<close>

theorem ipv6_config_untouched:
  "Network cfg = defaultDataNetwork \<Longrightarrow> Config.IPv6 cfg \<noteq> None \<Longrightarrow>
   fst (ConfigureNetwork env cfg n) = OK \<and>
   effects (snd (ConfigureNetwork env cfg n)) = effects n \<and>
   activeLinks (snd (ConfigureNetwork env cfg n)) = activeLinks n \<and>
   snd (ConfigureNetwork env cfg n) = n"
  by (simp add: ConfigureNetwork_def skipConfig_def)

theorem ipv6_config_untouched_witness:
  "Network cfgV6 = defaultDataNetwork \<and> Config.IPv6 cfgV6 \<noteq> None \<and>
   fst (ConfigureNetwork (plugin [addrA]) cfgV6 online) = OK \<and>
   effects (snd (ConfigureNetwork (plugin [addrA]) cfgV6 online)) = effects online \<and>
   activeLinks (snd (ConfigureNetwork (plugin [addrA]) cfgV6 online)) = activeLinks online \<and>
   snd (ConfigureNetwork (plugin [addrA]) cfgV6 online) = online"
  using ipv6_config_untouched[of cfgV6 "plugin [addrA]" online]
  by (simp add: cfgV6_def scenarioA_def defaultDataNetwork_def)

text \<open>
  Against claim C3 as stated: in scenario A (network \<^verbatim>\<open>default\<close>, enabled, address
  \<^verbatim>\<open>10.0.0.5/24\<close>, no link before), with a plugin that would attach at once and an
  interface that would report that address, the method issues no CNI attach call
  and stores no link.
\<close>

theorem scenarioA_no_attach_counterexample:
  "effects (snd (ConfigureNetwork (plugin [addrA]) scenarioA offline)) = [] \<and>
   activeLinks (snd (ConfigureNetwork (plugin [addrA]) scenarioA offline)) ''default'' = None"
  by (simp add: ConfigureNetwork_def skipConfig_def scenarioA_def defaultDataNetwork_def offline_def)

text \<open>
  Claim C3, amended. For a configuration of the managed network with \<^verbatim>\<open>Enable\<close>
  true and an explicit IPv4 address, called when the network has no active link,
  \<^verbatim>\<open>ConfigureNetwork\<close> returns nil without any CNI attach call, and the network
  still has no active link afterwards.
\<close>

theorem explicit_address_not_attached:
  "Network cfg = defaultDataNetwork \<Longrightarrow> Enable cfg \<Longrightarrow> Config.IPv4 cfg = Some a \<Longrightarrow>
   activeLinks n (Network cfg) = None \<Longrightarrow>
   fst (ConfigureNetwork env cfg n) = OK \<and>
   effects (snd (ConfigureNetwork env cfg n)) = effects n \<and>
   activeLinks (snd (ConfigureNetwork env cfg n)) (Network cfg) = None"
  by (simp add: ConfigureNetwork_def skipConfig_def)

theorem explicit_address_not_attached_witness:
  "Network scenarioA = defaultDataNetwork \<and> Enable scenarioA \<and>
   Config.IPv4 scenarioA = Some addrA \<and> activeLinks offline (Network scenarioA) = None \<and>
   fst (ConfigureNetwork (plugin [addrA]) scenarioA offline) = OK \<and>
   effects (snd (ConfigureNetwork (plugin [addrA]) scenarioA offline)) = effects offline \<and>
   activeLinks (snd (ConfigureNetwork (plugin [addrA]) scenarioA offline)) (Network scenarioA) = None"
  using explicit_address_not_attached[of scenarioA addrA offline "plugin [addrA]"]
  by (simp add: scenarioA_def defaultDataNetwork_def offline_def)

subsection \<open>The statements after the skip\<close>

text \<open>
  What lines 55-203 would do if they were reached. Disabling is a no-op when the
  network is offline; when a link is online it is detached once and removed, and
  a failed detach leaves it in the table.
\<close>

lemma retry_first_attempt:
  "fst (f s) = None \<Longrightarrow> retry n d f s = (None, snd (f s), [Attempt None])"
  unfolding retry_def by (subst retry_loop.simps) (simp add: case_prod_beta)

lemma steps_disable_offline:
  "\<not> Enable cfg \<Longrightarrow> activeLinks n (Network cfg) = None \<Longrightarrow> configureSteps env cfg n = (OK, n)"
  by (simp add: configureSteps_def)

lemma steps_disable_online:
  "\<not> Enable cfg \<Longrightarrow> activeLinks n (Network cfg) = Some link \<Longrightarrow>
   DelNetworkList env (netconf link) (rt link) (extern n) = (None, w) \<Longrightarrow>
   configureSteps env cfg n =
     (OK, n\<lparr>extern := w, effects := effects n @ [CniDel (netconf link) (rt link)],
            activeLinks := (activeLinks n)(Network cfg := None)\<rparr>)"
  by (simp add: configureSteps_def delNetworkList_def)

lemma steps_disable_detach_fails:
  "\<not> Enable cfg \<Longrightarrow> activeLinks n (Network cfg) = Some link \<Longrightarrow>
   DelNetworkList env (netconf link) (rt link) (extern n) = (Some e, w) \<Longrightarrow>
   configureSteps env cfg n =
     (Err (Wrapf ''when 6: '' e),
      n\<lparr>extern := w, effects := effects n @ [CniDel (netconf link) (rt link)]\<rparr>)"
  by (simp add: configureSteps_def delNetworkList_def)

text \<open>
  The IPv6 address is looked at in the branch that connects, and before that in the
  comparison with the link's addresses, which dereferences the link's IPv6 pointer
  (nil in every link that line 183 makes).
\<close>

lemma steps_ipv6_offline:
  "Enable cfg \<Longrightarrow> activeLinks n (Network cfg) = None \<Longrightarrow> Config.IPv6 cfg \<noteq> None \<Longrightarrow>
   configureSteps env cfg n = (Err (New ''ipv6 not supported''), n)"
  by (simp add: configureSteps_def reconnect_def connect_def)

lemma steps_ipv6_online:
  "Enable cfg \<Longrightarrow> activeLinks n (Network cfg) = Some link \<Longrightarrow> k8sLink.IPv6 link = None \<Longrightarrow>
   Config.IPv6 cfg \<noteq> None \<Longrightarrow>
   configureSteps env cfg n = (Panic nilDeref, n)"
  by (auto simp: configureSteps_def reconnect_def addrChanged_def)

text \<open>
  A link whose address differs from the one asked for is detached and removed
  before the branch that connects starts; a failed detach ends the call.
\<close>

lemma reconnect_detaches_first:
  "activeLinks n (Network cfg) = Some link \<Longrightarrow> addrChanged link cfg = Inr True \<Longrightarrow>
   DelNetworkList env (netconf link) (rt link) (extern n) = (None, w) \<Longrightarrow>
   reconnect env cfg n =
     (Inr None, n\<lparr>extern := w, effects := effects n @ [CniDel (netconf link) (rt link)],
                  activeLinks := (activeLinks n)(Network cfg := None)\<rparr>)"
  by (simp add: reconnect_def delNetworkList_def)

lemma steps_readdress_detach_fails:
  "Enable cfg \<Longrightarrow> activeLinks n (Network cfg) = Some link \<Longrightarrow> addrChanged link cfg = Inr True \<Longrightarrow>
   DelNetworkList env (netconf link) (rt link) (extern n) = (Some e, w) \<Longrightarrow>
   configureSteps env cfg n =
     (Err (Wrapf ''when 5: '' e),
      n\<lparr>extern := w, effects := effects n @ [CniDel (netconf link) (rt link)]\<rparr>)"
  by (simp add: configureSteps_def reconnect_def delNetworkList_def)

text \<open>
  Runs with the plugin that attaches at the first attempt: scenario A from an
  offline sidecar; a change of the address; an interface that reports two
  addresses; an interface that reports none, where \<^verbatim>\<open>v4addrs[0]\<close> panics after
  the warning.
\<close>

lemma steps_scenarioA:
  "configureSteps (plugin [addrA]) scenarioA offline =
     (OK, offline\<lparr>activeLinks := [''default'' \<mapsto> linkA],
                  externalRouting := [''eth1'' \<mapsto> [''100.96.0.0/11'']],
                  extern := 1,
                  effects := [CniAdd (ip_doc ''10.0.0.5/24'') rtA, ShapeCall, AddRulesCall,
                              RoutingPolicyCall]\<rparr>)"
  by (simp add: configureSteps_def reconnect_def connect_def registerLink_def applyConfig_def
      newNetworkConfigList_def retry_first_attempt attach_effect_def
      plugin_def scenarioA_def offline_def linkA_def rtA_def Let_def)

lemma steps_readdress:
  "configureSteps (plugin [addrB]) cfgReaddress online =
     (OK, online\<lparr>activeLinks := [''default'' \<mapsto> linkA\<lparr>k8sLink.IPv4 := Some addrB,
                                                       netconf := ip_doc ''10.0.0.9/24''\<rparr>],
                 externalRouting := [''eth1'' \<mapsto> [''100.96.0.0/11'']],
                 extern := 2,
                 effects := [CniDel (ip_doc ''10.0.0.5/24'') rtA,
                             CniAdd (ip_doc ''10.0.0.9/24'') rtA,
                             ShapeCall, AddRulesCall, RoutingPolicyCall]\<rparr>)"
  by (simp add: configureSteps_def reconnect_def connect_def registerLink_def applyConfig_def
      delNetworkList_def addrChanged_def v4Changed_def ip_equal_def
      newNetworkConfigList_def retry_first_attempt attach_effect_def
      plugin_def cfgReaddress_def scenarioA_def online_def offline_def linkA_def rtA_def
      addrA_def addrB_def Let_def fun_upd_twist)

lemma steps_two_addresses:
  "configureSteps (plugin [addrA, addrB]) scenarioA offline =
     (OK, offline\<lparr>activeLinks := [''default'' \<mapsto> linkA],
                  externalRouting := [''eth1'' \<mapsto> [''100.96.0.0/11'']],
                  extern := 1,
                  effects := [CniAdd (ip_doc ''10.0.0.5/24'') rtA,
                              Warn ''Found 2 v4 addresses, expected just 1'',
                              ShapeCall, AddRulesCall, RoutingPolicyCall]\<rparr>)"
  by (simp add: configureSteps_def reconnect_def connect_def registerLink_def applyConfig_def
      newNetworkConfigList_def retry_first_attempt attach_effect_def itoa_def digits.simps
      plugin_def scenarioA_def offline_def linkA_def rtA_def Let_def)

lemma steps_no_address:
  "configureSteps (plugin []) scenarioA offline =
     (Panic ''index out of range [0] with length 0'',
      offline\<lparr>externalRouting := [''eth1'' \<mapsto> [''100.96.0.0/11'']],
               extern := 1,
               effects := [CniAdd (ip_doc ''10.0.0.5/24'') rtA,
                           Warn ''Found 0 v4 addresses, expected just 1'']\<rparr>)"
  by (simp add: configureSteps_def reconnect_def connect_def registerLink_def applyConfig_def
      newNetworkConfigList_def retry_first_attempt attach_effect_def itoa_def digits.simps
      plugin_def scenarioA_def offline_def linkA_def rtA_def Let_def)

subsection \<open>ConfigureNetwork and the statements it skips\<close>




text \<open>
  Against claim C9 as stated: disabling the managed network while its link is
  online issues no CNI detach call and leaves the link in the table.
\<close>

theorem disable_online_counterexample:
  "effects (snd (ConfigureNetwork (plugin [addrA]) cfgDisable online)) = [] \<and>
   activeLinks (snd (ConfigureNetwork (plugin [addrA]) cfgDisable online)) ''default'' = Some linkA"
  by (simp add: ConfigureNetwork_def skipConfig_def defaultDataNetwork_def
      cfgDisable_def scenarioA_def online_def offline_def)

text \<open>
  Claim C9, amended. Disabling is idempotent and never detaches: for every
  configuration of the managed network with \<^verbatim>\<open>Enable\<close> false, \<^verbatim>\<open>ConfigureNetwork\<close>
  returns nil, issues no CNI detach call and leaves the active links as they were,
  whether the link is offline or online; a second call does what the first did.
\<close>

theorem disable_never_detaches:
  "Network cfg = defaultDataNetwork \<Longrightarrow> \<not> Enable cfg \<Longrightarrow>
   fst (ConfigureNetwork env cfg n) = OK \<and>
   effects (snd (ConfigureNetwork env cfg n)) = effects n \<and>
   activeLinks (snd (ConfigureNetwork env cfg n)) = activeLinks n \<and>
   ConfigureNetwork env cfg (snd (ConfigureNetwork env cfg n)) = ConfigureNetwork env cfg n"
  by (simp add: ConfigureNetwork_def skipConfig_def)

theorem disable_never_detaches_witness:
  "Network cfgDisable = defaultDataNetwork \<and> \<not> Enable cfgDisable \<and>
   fst (ConfigureNetwork (plugin [addrA]) cfgDisable offline) = OK \<and>
   effects (snd (ConfigureNetwork (plugin [addrA]) cfgDisable offline)) = effects offline \<and>
   activeLinks (snd (ConfigureNetwork (plugin [addrA]) cfgDisable offline)) = activeLinks offline \<and>
   ConfigureNetwork (plugin [addrA]) cfgDisable (snd (ConfigureNetwork (plugin [addrA]) cfgDisable offline))
     = ConfigureNetwork (plugin [addrA]) cfgDisable offline"
  using disable_never_detaches[of cfgDisable "plugin [addrA]" offline]
  by (simp add: cfgDisable_def scenarioA_def defaultDataNetwork_def)

text \<open>
  Against claim C10 as stated: the link has the address \<^verbatim>\<open>10.0.0.5\<close> and the
  configuration asks for \<^verbatim>\<open>10.0.0.9\<close>; the method issues no CNI detach call and
  the link is still in the table.
\<close>

theorem readdress_counterexample:
  "addrChanged linkA cfgReaddress = Inr True \<and>
   effects (snd (ConfigureNetwork (plugin [addrB]) cfgReaddress online)) = [] \<and>
   activeLinks (snd (ConfigureNetwork (plugin [addrB]) cfgReaddress online)) ''default'' = Some linkA"
  by (simp add: ConfigureNetwork_def skipConfig_def defaultDataNetwork_def
      addrChanged_def v4Changed_def ip_equal_def addrA_def addrB_def linkA_def
      cfgReaddress_def scenarioA_def online_def offline_def)

text \<open>
  Claim C10, amended. The address of an active link is never changed in place:
  given an enabled configuration of the managed network whose address differs from
  the one of the online link, \<^verbatim>\<open>ConfigureNetwork\<close> returns nil without any CNI detach
  or attach call and the table keeps the same link with its old address, so the
  table never holds a link with both addresses.
\<close>

theorem address_kept_in_place:
  "Network cfg = defaultDataNetwork \<Longrightarrow> Enable cfg \<Longrightarrow>
   activeLinks n (Network cfg) = Some link \<Longrightarrow> addrChanged link cfg = Inr True \<Longrightarrow>
   fst (ConfigureNetwork env cfg n) = OK \<and>
   effects (snd (ConfigureNetwork env cfg n)) = effects n \<and>
   activeLinks (snd (ConfigureNetwork env cfg n)) (Network cfg) = Some link"
  by (simp add: ConfigureNetwork_def skipConfig_def)

theorem address_kept_in_place_witness:
  "Network cfgReaddress = defaultDataNetwork \<and> Enable cfgReaddress \<and>
   activeLinks online (Network cfgReaddress) = Some linkA \<and>
   addrChanged linkA cfgReaddress = Inr True \<and>
   fst (ConfigureNetwork (plugin [addrB]) cfgReaddress online) = OK \<and>
   effects (snd (ConfigureNetwork (plugin [addrB]) cfgReaddress online)) = effects online \<and>
   activeLinks (snd (ConfigureNetwork (plugin [addrB]) cfgReaddress online)) (Network cfgReaddress)
     = Some linkA"
  using address_kept_in_place[of cfgReaddress online linkA "plugin [addrB]"]
  by (simp add: addrChanged_def v4Changed_def ip_equal_def addrA_def addrB_def linkA_def
      cfgReaddress_def scenarioA_def online_def offline_def defaultDataNetwork_def)

end
